theory Spec2Isabelle
  imports Main "HOL-Library.Sublist"
begin

section \<open>Python string operations used by the download script\<close>

text \<open>
  A string is the list of its characters, each a code point below 256 (a header value,
  which \<open>requests\<close> decodes as Latin-1, is exactly that). \<open>lower\<close> is Python's
  \<open>str.lower\<close> on such strings: the ASCII capitals and the Latin-1 capitals
  \<open>0xC0\<close> to \<open>0xDE\<close> (without the multiplication sign \<open>0xD7\<close>) move to their small
  letters, every other character stays.
\<close>

definition latin1_upper :: string where
  "latin1_upper =
     [CHR 0xC0, CHR 0xC1, CHR 0xC2, CHR 0xC3, CHR 0xC4, CHR 0xC5, CHR 0xC6, CHR 0xC7,
      CHR 0xC8, CHR 0xC9, CHR 0xCA, CHR 0xCB, CHR 0xCC, CHR 0xCD, CHR 0xCE, CHR 0xCF,
      CHR 0xD0, CHR 0xD1, CHR 0xD2, CHR 0xD3, CHR 0xD4, CHR 0xD5, CHR 0xD6, CHR 0xD8,
      CHR 0xD9, CHR 0xDA, CHR 0xDB, CHR 0xDC, CHR 0xDD, CHR 0xDE]"

definition latin1_lower :: string where
  "latin1_lower =
     [CHR 0xE0, CHR 0xE1, CHR 0xE2, CHR 0xE3, CHR 0xE4, CHR 0xE5, CHR 0xE6, CHR 0xE7,
      CHR 0xE8, CHR 0xE9, CHR 0xEA, CHR 0xEB, CHR 0xEC, CHR 0xED, CHR 0xEE, CHR 0xEF,
      CHR 0xF0, CHR 0xF1, CHR 0xF2, CHR 0xF3, CHR 0xF4, CHR 0xF5, CHR 0xF6, CHR 0xF8,
      CHR 0xF9, CHR 0xFA, CHR 0xFB, CHR 0xFC, CHR 0xFD, CHR 0xFE]"

definition lower_char :: "char \<Rightarrow> char" where
  "lower_char c =
     (case map_of (zip (''ABCDEFGHIJKLMNOPQRSTUVWXYZ'' @ latin1_upper)
                       (''abcdefghijklmnopqrstuvwxyz'' @ latin1_lower)) c of
        Some d \<Rightarrow> d
      | None \<Rightarrow> c)"

definition lower :: "string \<Rightarrow> string" where
  "lower s = map lower_char s"

text \<open>Python's \<open>sub in s\<close> on strings: \<open>sub\<close> occurs as a contiguous piece of \<open>s\<close>.\<close>

fun contains :: "string \<Rightarrow> string \<Rightarrow> bool" where
  "contains sub [] = (sub = [])"
| "contains sub (c # cs) = (prefix sub (c # cs) \<or> contains sub cs)"

text \<open>
  \<open>s.split(sep)\<close> for a non-empty separator: the pieces between the occurrences of
  \<open>sep\<close>, found from the left without overlap. The second argument is the piece being
  collected. Python raises \<open>ValueError\<close> for an empty separator; the script only
  splits at the literals \<open>'/'\<close>, \<open>'?'\<close> and \<open>'filename='\<close>, and with an empty
  separator this function finds no occurrence.
\<close>

function split_from :: "string \<Rightarrow> string \<Rightarrow> string \<Rightarrow> string list" where
  "split_from sep cur [] = [cur]"
| "split_from sep cur (c # cs) =
     (if sep \<noteq> [] \<and> prefix sep (c # cs)
      then cur # split_from sep [] (drop (length sep) (c # cs))
      else split_from sep (cur @ [c]) cs)"
  by pat_completeness auto
termination
  by (relation "measure (\<lambda>(sep, cur, s). length s)") auto

definition py_split :: "string \<Rightarrow> string \<Rightarrow> string list" where
  "py_split sep s = split_from sep [] s"

text \<open>\<open>s.strip(chars)\<close>: drop the characters of \<open>chars\<close> from both ends.\<close>

definition py_strip :: "string \<Rightarrow> string \<Rightarrow> string" where
  "py_strip chars s =
     rev (dropWhile (\<lambda>c. c \<in> set chars) (rev (dropWhile (\<lambda>c. c \<in> set chars) s)))"

text \<open>\<open>s.endswith(suf)\<close>.\<close>

definition endswith :: "string \<Rightarrow> string \<Rightarrow> bool" where
  "endswith s suf = prefix (rev suf) (rev s)"

text \<open>
  \<open>int(s)\<close> on a string, base 10, as CPython does it. Whitespace around the number
  is dropped: the ASCII characters space, tab, line feed, vertical tab, form feed and
  carriage return, and the two Latin-1 spaces \<open>0x85\<close> and \<open>0xA0\<close> (the separator
  controls \<open>0x1C\<close> to \<open>0x1F\<close> are not dropped). One sign may come first, directly
  followed by the digits, which may be grouped with single underscores between them.
  A number of more than 4300 digits (the default limit of the interpreter) is
  refused. \<open>None\<close> stands for the \<open>ValueError\<close> Python raises in every other case.
\<close>

definition is_space :: "char \<Rightarrow> bool" where
  "is_space c =
     (c \<in> set [CHR '' '', CHR 0x09, CHR 0x0A, CHR 0x0B, CHR 0x0C, CHR 0x0D, CHR 0x85, CHR 0xA0])"

definition digit_val :: "char \<Rightarrow> nat option" where
  "digit_val c = map_of (zip ''0123456789'' [0, 1, 2, 3, 4, 5, 6, 7, 8, 9]) c"

fun read_digits :: "nat \<Rightarrow> string \<Rightarrow> nat option" where
  "read_digits acc [] = Some acc"
| "read_digits acc (c # cs) =
     (if c = CHR ''_''
      then (case cs of
              [] \<Rightarrow> None
            | d # ds \<Rightarrow>
                (case digit_val d of
                   None \<Rightarrow> None
                 | Some v \<Rightarrow> read_digits (10 * acc + v) ds))
      else (case digit_val c of
              None \<Rightarrow> None
            | Some v \<Rightarrow> read_digits (10 * acc + v) cs))"

definition max_str_digits :: nat where
  "max_str_digits = 4300"

definition read_nat :: "string \<Rightarrow> nat option" where
  "read_nat s =
     (case s of
        [] \<Rightarrow> None
      | d # ds \<Rightarrow>
          (case digit_val d of
             None \<Rightarrow> None
           | Some v \<Rightarrow>
               if length (filter (\<lambda>c. c \<noteq> CHR ''_'') s) > max_str_digits then None
               else read_digits v ds))"

definition py_int :: "string \<Rightarrow> int option" where
  "py_int s =
     (let t = rev (dropWhile is_space (rev (dropWhile is_space s)))
      in case t of
           [] \<Rightarrow> None
         | c # cs \<Rightarrow>
             if c = CHR ''-'' then map_option (\<lambda>n. - int n) (read_nat cs)
             else if c = CHR ''+'' then map_option int (read_nat cs)
             else map_option int (read_nat t))"

section \<open>Paths\<close>

text \<open>
  A \<open>pathlib\<close> POSIX path: its root (\<open>''/''\<close>, \<open>''//''\<close> or empty for a relative
  path) and its components. Parsing drops empty and \<open>''.''\<close> components; exactly two
  leading slashes are kept as a root of their own.
\<close>

datatype path = Path (root: string) (parts: "string list")

definition parse_path :: "string \<Rightarrow> path" where
  "parse_path s =
     Path (if prefix ''//'' s \<and> \<not> prefix ''///'' s then ''//''
           else if prefix ''/'' s then ''/'' else [])
          (filter (\<lambda>x. x \<noteq> [] \<and> x \<noteq> ''.'') (py_split ''/'' s))"

text \<open>\<open>p / s\<close>: an absolute right operand replaces the left one.\<close>

definition path_join :: "path \<Rightarrow> string \<Rightarrow> path" where
  "path_join p s =
     (let q = parse_path s
      in if root q \<noteq> [] then q else Path (root p) (parts p @ parts q))"

definition parent :: "path \<Rightarrow> path" where
  "parent p = Path (root p) (butlast (parts p))"

section \<open>The world the script runs in\<close>

text \<open>
  Every exception the script can meet is a subclass of \<open>Exception\<close>, which is all its
  handlers look at.
\<close>

datatype exn = RequestException | HTTPError | ValueError | OSError

text \<open>
  A request goes through the module's shared \<open>session\<close> (which carries the retry
  adapter of \<open>create_session\<close>) or through the bare \<open>requests\<close> module functions
  (a fresh session with no retry adapter on each call).
\<close>

datatype client = Session | Bare

text \<open>
  The retry policy that \<open>create_session\<close> mounts on the shared session for both URL
  schemes: at most 5 retries, backoff factor 1, on the listed status codes.
\<close>

record retry =
  total :: nat
  backoff_factor :: nat
  status_forcelist :: "nat list"

definition retry_strategy :: retry where
  "retry_strategy = \<lparr>total = 5, backoff_factor = 1, status_forcelist = [429, 500, 502, 503, 504]\<rparr>"

datatype verb = GET | HEAD

record request =
  via :: client
  verb :: verb
  target :: string
  stream :: bool

text \<open>
  An \<open>a\<close> element as BeautifulSoup gives it: its \<open>href\<close> attribute (if any), its
  \<open>.string\<close> (absent unless the element has a single string inside) and its \<open>.text\<close>.
\<close>

record anchor =
  href :: "string option"
  tag_string :: "string option"
  tag_text :: string

text \<open>
  A response: the status code, the headers keyed by lower-cased field name (the
  headers of \<open>requests\<close> ignore case), the \<open>a\<close> elements of the parsed body in
  document order, and for a streamed body the chunks \<open>iter_content\<close> yields, followed
  by the exception it raises after them, if any.
\<close>

record response =
  status :: nat
  headers :: "string \<rightharpoonup> string"
  anchors :: "anchor list"
  chunks :: "string list"
  broken :: "exn option"

datatype node = File string | Dir

text \<open>
  What the script cannot decide: the answer of the network to a request (an exception
  or a response; the same request always gets the same answer), \<open>urllib.parse.urljoin\<close> (which raises \<open>ValueError\<close> on some
  malformed URLs), whether the operating system lets a file be opened for writing or a
  directory be created, and the size \<open>stat\<close> reports for a directory.
\<close>

record env =
  net :: "request \<Rightarrow> exn + response"
  urljoin :: "string \<Rightarrow> string \<Rightarrow> exn + string"
  can_open :: "path \<Rightarrow> bool"
  can_mkdir :: "path \<Rightarrow> bool"
  dir_size :: "path \<Rightarrow> nat"

text \<open>What the script changes: the file system and the list of requests it has sent.\<close>

record world =
  fs :: "path \<rightharpoonup> node"
  sent :: "request list"

definition http :: "env \<Rightarrow> request \<Rightarrow> world \<Rightarrow> (exn + response) \<times> world" where
  "http e req w = (net e req, w\<lparr>sent := sent w @ [req]\<rparr>)"

text \<open>\<open>Response.raise_for_status\<close> raises for the client and server error codes only.\<close>

definition raise_for_status :: "response \<Rightarrow> exn + unit" where
  "raise_for_status r = (if 400 \<le> status r \<and> status r < 600 then Inl HTTPError else Inr ())"

definition header :: "response \<Rightarrow> string \<Rightarrow> string option" where
  "header r name = headers r (lower name)"

section \<open>\<open>get_pdf_url\<close>: finding the PDF link of an article page\<close>

text \<open>
  The four patterns of \<open>pdf_patterns\<close>, as predicates on an \<open>a\<close> element. The
  filter functions are \<open>lambda x: x and kw in x.lower()\<close>: an absent or empty value
  does not match.
\<close>

definition href_has :: "string \<Rightarrow> anchor \<Rightarrow> bool" where
  "href_has kw a =
     (case href a of None \<Rightarrow> False | Some x \<Rightarrow> x \<noteq> [] \<and> contains kw (lower x))"

definition string_has_any :: "string list \<Rightarrow> anchor \<Rightarrow> bool" where
  "string_has_any terms a =
     (case tag_string a of
        None \<Rightarrow> False
      | Some x \<Rightarrow> x \<noteq> [] \<and> list_ex (\<lambda>t. contains t (lower x)) terms)"

definition pdf_patterns :: "(anchor \<Rightarrow> bool) list" where
  "pdf_patterns =
     [href_has ''pdf'', href_has ''download'', href_has ''report'',
      string_has_any [''report'', ''download'', ''pdf'']]"

text \<open>The test on the probe's response: \<open>'pdf' in content_type.lower()\<close>.\<close>

definition is_pdf :: "response \<Rightarrow> bool" where
  "is_pdf r =
     contains ''pdf'' (lower (case header r ''content-type'' of None \<Rightarrow> [] | Some v \<Rightarrow> v))"

definition probe :: "string \<Rightarrow> request" where
  "probe full_url = \<lparr>via = Bare, verb = HEAD, target = full_url, stream = False\<rparr>"

text \<open>
  The inner loop \<open>for link in links\<close>. An exception of the probe is caught by the inner
  handler and the loop goes on; an exception of \<open>urljoin\<close> leaves the loop (\<open>Inl\<close>).
\<close>

fun scan_links :: "env \<Rightarrow> string \<Rightarrow> anchor list \<Rightarrow> world \<Rightarrow> (exn + string option) \<times> world" where
  "scan_links e article_url [] w = (Inr None, w)"
| "scan_links e article_url (link # links) w =
     (case href link of
        None \<Rightarrow> scan_links e article_url links w
      | Some h \<Rightarrow>
          if h = [] then scan_links e article_url links w
          else (case urljoin e article_url h of
                  Inl x \<Rightarrow> (Inl x, w)
                | Inr full_url \<Rightarrow>
                    (case http e (probe full_url) w of
                       (Inl x, w1) \<Rightarrow> scan_links e article_url links w1
                     | (Inr head, w1) \<Rightarrow>
                         if is_pdf head then (Inr (Some full_url), w1)
                         else scan_links e article_url links w1)))"

text \<open>The outer loop \<open>for pattern in pdf_patterns\<close>.\<close>

fun scan_patterns ::
  "env \<Rightarrow> string \<Rightarrow> (anchor \<Rightarrow> bool) list \<Rightarrow> anchor list \<Rightarrow> world \<Rightarrow> (exn + string option) \<times> world"
where
  "scan_patterns e article_url [] soup w = (Inr None, w)"
| "scan_patterns e article_url (pattern # patterns) soup w =
     (let links = filter pattern soup
      in if links \<noteq> []
         then (case scan_links e article_url links w of
                 (Inr None, w1) \<Rightarrow> scan_patterns e article_url patterns soup w1
               | (Inr (Some u), w1) \<Rightarrow> (Inr (Some u), w1)
               | (Inl x, w1) \<Rightarrow> (Inl x, w1))
         else scan_patterns e article_url patterns soup w)"

definition page_request :: "string \<Rightarrow> request" where
  "page_request article_url = \<lparr>via = Session, verb = GET, target = article_url, stream = False\<rparr>"

text \<open>The body of the \<open>try\<close> block, and the function with its handler around it.\<close>

definition get_pdf_url_try :: "env \<Rightarrow> string \<Rightarrow> world \<Rightarrow> (exn + string option) \<times> world" where
  "get_pdf_url_try e article_url w =
     (case http e (page_request article_url) w of
        (Inl x, w1) \<Rightarrow> (Inl x, w1)
      | (Inr response, w1) \<Rightarrow>
          (case raise_for_status response of
             Inl x \<Rightarrow> (Inl x, w1)
           | Inr _ \<Rightarrow> scan_patterns e article_url pdf_patterns (anchors response) w1))"

definition get_pdf_url :: "env \<Rightarrow> string \<Rightarrow> world \<Rightarrow> string option \<times> world" where
  "get_pdf_url e article_url w =
     (case get_pdf_url_try e article_url w of
        (Inl x, w1) \<Rightarrow> (None, w1)
      | (Inr res, w1) \<Rightarrow> (res, w1))"

section \<open>\<open>get_pdf_filename\<close>\<close>

definition get_pdf_filename :: "string \<Rightarrow> response \<Rightarrow> string" where
  "get_pdf_filename pdf_url response =
     (let filename = last (py_split ''/'' pdf_url);
          filename =
            (case header response ''Content-Disposition'' of
               None \<Rightarrow> filename
             | Some content_disp \<Rightarrow>
                 if contains ''filename='' content_disp
                 then py_strip [CHR 0x22, CHR 0x27] (last (py_split ''filename='' content_disp))
                 else filename);
          filename = hd (py_split ''?'' filename)
      in if endswith (lower filename) ''.pdf'' then filename else filename @ ''.pdf'')"

section \<open>\<open>download_pdf\<close>\<close>

text \<open>\<open>int(response.headers.get('content-length', 0))\<close>; \<open>None\<close> is the \<open>ValueError\<close>.\<close>

definition content_length :: "response \<Rightarrow> int option" where
  "content_length r = (case header r ''content-length'' of None \<Rightarrow> Some 0 | Some v \<Rightarrow> py_int v)"

definition st_size :: "env \<Rightarrow> path \<Rightarrow> node \<Rightarrow> nat" where
  "st_size e p n = (case n of File bytes \<Rightarrow> length bytes | Dir \<Rightarrow> dir_size e p)"

text \<open>
  The block \<open>if output_path.exists(): ...\<close>: \<open>Inr True\<close> when the function returns the
  existing path, \<open>Inr False\<close> when it goes on to download.
\<close>

definition already_complete :: "env \<Rightarrow> path \<Rightarrow> response \<Rightarrow> world \<Rightarrow> exn + bool" where
  "already_complete e output_path head_response w =
     (case fs w output_path of
        None \<Rightarrow> Inr False
      | Some n \<Rightarrow>
          (case content_length head_response of
             None \<Rightarrow> Inl ValueError
           | Some expected_size \<Rightarrow> Inr (int (st_size e output_path n) = expected_size)))"

text \<open>\<open>open(output_path, 'wb')\<close> creates the file or empties it; \<open>f.write\<close> appends.\<close>

definition open_wb :: "env \<Rightarrow> path \<Rightarrow> world \<Rightarrow> exn + world" where
  "open_wb e p w =
     (if fs w p = Some Dir \<or> \<not> can_open e p then Inl OSError
      else Inr (w\<lparr>fs := (fs w)(p \<mapsto> File [])\<rparr>))"

definition write_chunk :: "path \<Rightarrow> string \<Rightarrow> world \<Rightarrow> world" where
  "write_chunk p data w =
     (case fs w p of
        Some (File bytes) \<Rightarrow> w\<lparr>fs := (fs w)(p \<mapsto> File (bytes @ data))\<rparr>
      | _ \<Rightarrow> w)"

fun write_chunks :: "path \<Rightarrow> string list \<Rightarrow> world \<Rightarrow> world" where
  "write_chunks p [] w = w"
| "write_chunks p (data # rest) w = write_chunks p rest (write_chunk p data w)"

definition head_request :: "string \<Rightarrow> request" where
  "head_request pdf_url = \<lparr>via = Session, verb = HEAD, target = pdf_url, stream = False\<rparr>"

definition body_request :: "string \<Rightarrow> request" where
  "body_request pdf_url = \<lparr>via = Session, verb = GET, target = pdf_url, stream = True\<rparr>"

text \<open>From \<open>response = session.get(pdf_url, stream=True)\<close> to the end of the \<open>try\<close> block.\<close>

definition transfer :: "env \<Rightarrow> string \<Rightarrow> path \<Rightarrow> world \<Rightarrow> (exn + path) \<times> world" where
  "transfer e pdf_url output_path w =
     (case http e (body_request pdf_url) w of
        (Inl x, w1) \<Rightarrow> (Inl x, w1)
      | (Inr response, w1) \<Rightarrow>
          (case raise_for_status response of
             Inl x \<Rightarrow> (Inl x, w1)
           | Inr _ \<Rightarrow>
               (case content_length response of
                  None \<Rightarrow> (Inl ValueError, w1)
                | Some total_size \<Rightarrow>
                    (case open_wb e output_path w1 of
                       Inl x \<Rightarrow> (Inl x, w1)
                     | Inr w2 \<Rightarrow>
                         (let w3 = write_chunks output_path (chunks response) w2
                          in case broken response of
                               Some x \<Rightarrow> (Inl x, w3)
                             | None \<Rightarrow> (Inr output_path, w3))))))"

definition download_pdf_try :: "env \<Rightarrow> string \<Rightarrow> path \<Rightarrow> world \<Rightarrow> (exn + path) \<times> world" where
  "download_pdf_try e pdf_url output_dir w =
     (case http e (head_request pdf_url) w of
        (Inl x, w1) \<Rightarrow> (Inl x, w1)
      | (Inr head_response, w1) \<Rightarrow>
          (case raise_for_status head_response of
             Inl x \<Rightarrow> (Inl x, w1)
           | Inr _ \<Rightarrow>
               (let filename = get_pdf_filename pdf_url head_response;
                    output_path = path_join output_dir filename
                in case already_complete e output_path head_response w1 of
                     Inl x \<Rightarrow> (Inl x, w1)
                   | Inr True \<Rightarrow> (Inr output_path, w1)
                   | Inr False \<Rightarrow> transfer e pdf_url output_path w1)))"

definition download_pdf :: "env \<Rightarrow> string \<Rightarrow> path \<Rightarrow> world \<Rightarrow> path option \<times> world" where
  "download_pdf e pdf_url output_dir w =
     (case download_pdf_try e pdf_url output_dir w of
        (Inl x, w1) \<Rightarrow> (None, w1)
      | (Inr output_path, w1) \<Rightarrow> (Some output_path, w1))"

section \<open>\<open>process_article_links\<close>\<close>

text \<open>\<open>output_dir.mkdir(exist_ok=True)\<close>.\<close>

definition mkdir_exist_ok :: "env \<Rightarrow> path \<Rightarrow> world \<Rightarrow> exn + world" where
  "mkdir_exist_ok e p w =
     (case fs w p of
        Some Dir \<Rightarrow> Inr w
      | Some (File bytes) \<Rightarrow> Inl OSError
      | None \<Rightarrow> if can_mkdir e p then Inr (w\<lparr>fs := (fs w)(p \<mapsto> Dir)\<rparr>) else Inl OSError)"

text \<open>
  The loop over the links, with the list \<open>downloaded_files\<close> it appends to. \<open>if not
  pdf_url\<close> skips an absent and an empty URL alike.
\<close>

fun process_loop :: "env \<Rightarrow> path \<Rightarrow> string list \<Rightarrow> path list \<Rightarrow> world \<Rightarrow> path list \<times> world" where
  "process_loop e output_dir [] downloaded_files w = (downloaded_files, w)"
| "process_loop e output_dir (link # links) downloaded_files w =
     (case get_pdf_url e link w of
        (None, w1) \<Rightarrow> process_loop e output_dir links downloaded_files w1
      | (Some pdf_url, w1) \<Rightarrow>
          if pdf_url = [] then process_loop e output_dir links downloaded_files w1
          else (case download_pdf e pdf_url output_dir w1 of
                  (None, w2) \<Rightarrow> process_loop e output_dir links downloaded_files w2
                | (Some pdf_path, w2) \<Rightarrow>
                    process_loop e output_dir links (downloaded_files @ [pdf_path]) w2))"

definition process_article_links :: "env \<Rightarrow> string list \<Rightarrow> world \<Rightarrow> (exn + path list) \<times> world" where
  "process_article_links e article_links w =
     (let output_dir = parse_path ''pdfs''
      in case mkdir_exist_ok e output_dir w of
           Inl x \<Rightarrow> (Inl x, w)
         | Inr w1 \<Rightarrow>
             (case process_loop e output_dir article_links [] w1 of
                (downloaded_files, w2) \<Rightarrow> (Inr downloaded_files, w2)))"

section \<open>Link discovery in \<open>main\<close>\<close>

text \<open>
  \<open>any(term in href.lower() or (link.text and term in link.text.lower()) for term in
  terms)\<close>, on the \<open>href\<close> attribute as written in the page.
\<close>

definition relevant :: "string list \<Rightarrow> string \<Rightarrow> anchor \<Rightarrow> bool" where
  "relevant terms h link =
     list_ex (\<lambda>t. contains t (lower h) \<or> (tag_text link \<noteq> [] \<and> contains t (lower (tag_text link))))
       terms"

text \<open>
  The loop over \<open>soup.find_all('a', href=True)\<close>, adding to the set \<open>all_links\<close>. An
  exception of \<open>urljoin\<close> ends the loop: the handler around the page only logs it, and
  the links added so far stay in the set.
\<close>

fun scan_page :: "env \<Rightarrow> string \<Rightarrow> string list \<Rightarrow> string \<Rightarrow> anchor list \<Rightarrow> string set \<Rightarrow> string set" where
  "scan_page e base_url terms url [] all_links = all_links"
| "scan_page e base_url terms url (link # links) all_links =
     (case href link of
        None \<Rightarrow> scan_page e base_url terms url links all_links
      | Some h \<Rightarrow>
          if h \<noteq> [] \<and> relevant terms h link
          then (case urljoin e url h of
                  Inl x \<Rightarrow> all_links
                | Inr full_url \<Rightarrow>
                    scan_page e base_url terms url links
                      (if contains base_url full_url then insert full_url all_links else all_links))
          else scan_page e base_url terms url links all_links)"

definition seed_request :: "string \<Rightarrow> request" where
  "seed_request url = \<lparr>via = Bare, verb = GET, target = url, stream = False\<rparr>"

fun discover_loop ::
  "env \<Rightarrow> string \<Rightarrow> string list \<Rightarrow> string list \<Rightarrow> string set \<Rightarrow> world \<Rightarrow> string set \<times> world"
where
  "discover_loop e base_url terms [] all_links w = (all_links, w)"
| "discover_loop e base_url terms (url # urls) all_links w =
     (case http e (seed_request url) w of
        (Inl x, w1) \<Rightarrow> discover_loop e base_url terms urls all_links w1
      | (Inr response, w1) \<Rightarrow>
          (case raise_for_status response of
             Inl x \<Rightarrow> discover_loop e base_url terms urls all_links w1
           | Inr _ \<Rightarrow>
               discover_loop e base_url terms urls
                 (scan_page e base_url terms url (anchors response) all_links) w1))"

text \<open>
  Lines 201 to 223 of \<open>main\<close>, with the seed list, the domain and the terms it
  hard-codes as arguments: the set handed to \<open>process_article_links\<close>.
\<close>

definition discover :: "env \<Rightarrow> string \<Rightarrow> string list \<Rightarrow> string list \<Rightarrow> world \<Rightarrow> string set \<times> world" where
  "discover e base_url terms article_links w =
     (case discover_loop e base_url terms article_links {} w of
        (all_links, w1) \<Rightarrow> (all_links \<union> set article_links, w1))"

definition main_terms :: "string list" where
  "main_terms = [''poll'', ''report'', ''research'', ''study'', ''findings'']"

section \<open>The specification's wording, as definitions\<close>

subsection \<open>Resolution order\<close>


definition resolved :: "env \<Rightarrow> string \<Rightarrow> anchor list \<Rightarrow> string list" where
  "resolved e article_url links =
     List.map_filter
       (\<lambda>link. case href link of
                 None \<Rightarrow> None
               | Some h \<Rightarrow>
                   if h = [] then None
                   else (case urljoin e article_url h of
                           Inl x \<Rightarrow> None
                         | Inr full_url \<Rightarrow> Some full_url))
       links"





subsection \<open>Batch processing\<close>

text \<open>
  The outcome of one link: the path of its file when its PDF URL is resolved and the
  download succeeds, nothing otherwise. The outcomes of a sequence of links, one slot
  per link in input order, each link starting in the world the one before left. The
  successes are the paths among the outcomes, in the same order.
\<close>

definition link_outcome :: "env \<Rightarrow> path \<Rightarrow> string \<Rightarrow> world \<Rightarrow> path option \<times> world" where
  "link_outcome e output_dir link w =
     (case get_pdf_url e link w of
        (None, w1) \<Rightarrow> (None, w1)
      | (Some pdf_url, w1) \<Rightarrow>
          if pdf_url = [] then (None, w1) else download_pdf e pdf_url output_dir w1)"

fun outcomes :: "env \<Rightarrow> path \<Rightarrow> string list \<Rightarrow> world \<Rightarrow> path option list \<times> world" where
  "outcomes e output_dir [] w = ([], w)"
| "outcomes e output_dir (link # links) w =
     (case link_outcome e output_dir link w of
        (r, w1) \<Rightarrow>
          (case outcomes e output_dir links w1 of (rs, w2) \<Rightarrow> (r # rs, w2)))"

definition successes :: "path option list \<Rightarrow> path list" where
  "successes rs = List.map_filter (\<lambda>r. r) rs"

subsection \<open>Failed requests\<close>



subsection \<open>Discovery\<close>

text \<open>
  The URL a link of a seed page contributes: its \<open>href\<close> is not empty, the \<open>href\<close>
  as written or the link's text contains one of the terms, whatever the case of the
  letters, and the joined URL contains the domain. The candidates of a page are the
  URLs its links contribute; a seed whose page cannot be fetched has none.
  \<open>page_joins\<close> says that on the page of a seed, when it can be fetched, the \<open>href\<close>
  of every relevant link can be joined to the seed's URL.
\<close>

definition join_raises :: "env \<Rightarrow> string list \<Rightarrow> string \<Rightarrow> anchor \<Rightarrow> bool" where
  "join_raises e terms url link =
     (case href link of
        None \<Rightarrow> False
      | Some h \<Rightarrow> h \<noteq> [] \<and> relevant terms h link \<and> isl (urljoin e url h))"

definition candidate_url :: "env \<Rightarrow> string \<Rightarrow> string list \<Rightarrow> string \<Rightarrow> anchor \<Rightarrow> string option" where
  "candidate_url e base_url terms url link =
     (case href link of
        None \<Rightarrow> None
      | Some h \<Rightarrow>
          if h \<noteq> [] \<and> relevant terms h link
          then (case urljoin e url h of
                  Inl x \<Rightarrow> None
                | Inr full_url \<Rightarrow> if contains base_url full_url then Some full_url else None)
          else None)"

definition page_candidates :: "env \<Rightarrow> string \<Rightarrow> string list \<Rightarrow> string \<Rightarrow> anchor list \<Rightarrow> string set" where
  "page_candidates e base_url terms url links =
     set (List.map_filter (candidate_url e base_url terms url) links)"

definition seed_candidates :: "env \<Rightarrow> string \<Rightarrow> string list \<Rightarrow> string \<Rightarrow> string set" where
  "seed_candidates e base_url terms url =
     (case net e (seed_request url) of
        Inl x \<Rightarrow> {}
      | Inr response \<Rightarrow>
          (case raise_for_status response of
             Inl x \<Rightarrow> {}
           | Inr u \<Rightarrow> page_candidates e base_url terms url (anchors response)))"

definition page_joins :: "env \<Rightarrow> string list \<Rightarrow> string \<Rightarrow> bool" where
  "page_joins e terms url =
     (case net e (seed_request url) of
        Inl x \<Rightarrow> True
      | Inr response \<Rightarrow>
          (case raise_for_status response of
             Inl x \<Rightarrow> True
           | Inr u \<Rightarrow> list_all (\<lambda>link. \<not> join_raises e terms url link) (anchors response)))"

text \<open>
  The claim's wording: a link is a candidate when its resolved URL or its text
  contains a term, and the resolved URL contains the domain.
\<close>

definition claimed_candidate :: "string \<Rightarrow> string list \<Rightarrow> string \<Rightarrow> anchor \<Rightarrow> bool" where
  "claimed_candidate base_url terms full_url link =
     (list_ex (\<lambda>t. contains t (lower full_url) \<or> contains t (lower (tag_text link))) terms \<and>
      contains base_url full_url)"

section \<open>Concrete environments\<close>

text \<open>
  A network that answers the requests of a table and refuses every other connection,
  on a machine where files can be written and directories made. The pages used with
  it carry absolute \<open>href\<close>s only, which \<open>urljoin\<close> returns as they are.
\<close>

definition answer :: "(request \<times> response) list \<Rightarrow> request \<Rightarrow> exn + response" where
  "answer table req = (case map_of table req of Some r \<Rightarrow> Inr r | None \<Rightarrow> Inl RequestException)"

definition demo_env :: "(request \<times> response) list \<Rightarrow> env" where
  "demo_env table =
     \<lparr>net = answer table, urljoin = (\<lambda>base h. Inr h), can_open = (\<lambda>p. True),
      can_mkdir = (\<lambda>p. True), dir_size = (\<lambda>p. 4096)\<rparr>"

text \<open>A response with the given headers and nothing else of interest.\<close>

definition with_headers :: "(string \<rightharpoonup> string) \<Rightarrow> response" where
  "with_headers hs = \<lparr>status = 200, headers = hs, anchors = [], chunks = [], broken = None\<rparr>"

definition empty_world :: world where
  "empty_world = \<lparr>fs = Map.empty, sent = []\<rparr>"

text \<open>A PDF served in chunks, possibly cut off by an exception after them.\<close>

definition pdf_body :: "string list \<Rightarrow> exn option \<Rightarrow> response" where
  "pdf_body cs x =
     \<lparr>status = 200, headers = [''content-type'' \<mapsto> ''application/pdf''], anchors = [],
      chunks = cs, broken = x\<rparr>"

text \<open>An HTML page with the given \<open>a\<close> elements.\<close>

definition html_page :: "anchor list \<Rightarrow> response" where
  "html_page as =
     \<lparr>status = 200, headers = [''content-type'' \<mapsto> ''text/html''], anchors = as,
      chunks = [], broken = None\<rparr>"

definition link_to :: "string \<Rightarrow> string \<Rightarrow> anchor" where
  "link_to h t = \<lparr>href = Some h, tag_string = Some t, tag_text = t\<rparr>"

text \<open>
  Two pages of an article with a link whose \<open>href\<close> contains \<open>pdf\<close> and a link
  whose \<open>href\<close> contains \<open>download\<close>. On the first the \<open>pdf\<close> link leads to an
  HTML page and only the \<open>download\<close> link serves a PDF; on the second, where the
  \<open>download\<close> link comes first in the document, both serve a PDF.
\<close>

definition summary_link :: anchor where
  "summary_link = link_to ''https://x.org/files/summary.pdf'' ''Summary''"

definition full_link :: anchor where
  "full_link = link_to ''https://x.org/download/full'' ''Full text''"


definition priority_env :: env where
  "priority_env =
     demo_env [(page_request ''https://x.org/article'', html_page [full_link, summary_link]),
               (probe ''https://x.org/files/summary.pdf'', pdf_body [] None),
               (probe ''https://x.org/download/full'', pdf_body [] None)]"

text \<open>
  Three articles, each linking to its PDF; every request about the second one fails
  with a connection error.
\<close>

definition served :: "string \<Rightarrow> string \<Rightarrow> string \<Rightarrow> (request \<times> response) list" where
  "served article_url pdf_url body =
     [(page_request article_url, html_page [link_to pdf_url ''PDF'']),
      (probe pdf_url, pdf_body [] None),
      (head_request pdf_url, pdf_body [] None),
      (body_request pdf_url, pdf_body [body] None)]"

definition batch_env :: env where
  "batch_env =
     demo_env (served ''https://x.org/one'' ''https://x.org/files/one.pdf'' ''first'' @
               served ''https://x.org/three'' ''https://x.org/files/three.pdf'' ''third'')"



text \<open>
  A seed page with a query-only link (\<open>urljoin\<close> appends such a reference to a base
  that has no query), and a seed page with four absolute links.
\<close>

definition next_page_link :: anchor where
  "next_page_link = \<lparr>href = Some ''?page=2'', tag_string = Some ''Next'', tag_text = ''Next''\<rparr>"

definition briefs_env :: env where
  "briefs_env =
     \<lparr>net = answer [(seed_request ''https://www.mhrc.ca/research-briefs'', html_page [next_page_link])],
      urljoin = (\<lambda>base h. Inr (base @ h)), can_open = (\<lambda>p. True), can_mkdir = (\<lambda>p. True),
      dir_size = (\<lambda>p. 4096)\<rparr>"

definition polls_env :: env where
  "polls_env =
     demo_env [(seed_request ''https://www.mhrc.ca/national-polling'',
                html_page [link_to ''https://www.mhrc.ca/poll-15'' ''Poll 15'',
                           link_to ''https://www.mhrc.ca/about'' ''Our FINDINGS'',
                           link_to ''https://www.mhrc.ca/contact'' ''Contact'',
                           link_to ''https://other.org/report'' ''A report elsewhere''])]"

text \<open>
  An article whose PDF is served with a \<open>Content-Disposition\<close> header that names an
  absolute path.
\<close>

definition traversal_env :: env where
  "traversal_env =
     demo_env [(page_request ''https://x.org/article'',
                html_page [link_to ''https://x.org/files/report.pdf'' ''Report'']),
               (probe ''https://x.org/files/report.pdf'', pdf_body [] None),
               (head_request ''https://x.org/files/report.pdf'',
                with_headers [''content-disposition'' \<mapsto>
                  ''attachment; filename='' @ [CHR 0x22] @ ''/tmp/report.pdf'' @ [CHR 0x22]]),
               (body_request ''https://x.org/files/report.pdf'', pdf_body [''%PDF''] None)]"

text \<open>
  Pages with a link whose \<open>href\<close> \<open>urljoin\<close> refuses (an unclosed bracket in the host
  makes it raise \<open>ValueError\<close>): an article page where that link comes before two
  links that serve a PDF, and a seed page where it stands between two poll links.
\<close>

definition strict_join :: "string \<Rightarrow> string \<Rightarrow> exn + string" where
  "strict_join base h = (if prefix ''http://['' h then Inl ValueError else Inr h)"

definition bracket_env :: env where
  "bracket_env =
     (demo_env [(page_request ''https://x.org/article'',
                 html_page [link_to ''http://[bad/x.pdf'' ''Broken'', summary_link, full_link]),
                (probe ''https://x.org/files/summary.pdf'', pdf_body [] None),
                (probe ''https://x.org/download/full'', pdf_body [] None),
                (seed_request ''https://www.mhrc.ca/national-polling'',
                 html_page [link_to ''https://www.mhrc.ca/poll-1'' ''Poll 1'',
                            link_to ''http://[bad/poll'' ''Broken'',
                            link_to ''https://www.mhrc.ca/poll-2'' ''Poll 2''])])
     \<lparr>urljoin := strict_join\<rparr>"

section \<open>Verified properties\<close>

subsection \<open>Reading a number\<close>

text \<open>
  \<open>py_int\<close> at the edges of what \<open>int()\<close> accepts: spaces of both kinds around the
  number, a sign and grouped digits are read; a separator control, a space after the
  sign, a doubled or trailing underscore, an empty string and 4301 digits are refused.
\<close>

lemma py_int_examples:
  "py_int '' 42 '' = Some 42"
  "py_int ([CHR 0xA0] @ ''4'' @ [CHR 0x85]) = Some 4"
  "py_int ''-1_000'' = Some (- 1000)"
  "py_int ''+007'' = Some 7"
  "py_int ([CHR 0x1F] @ ''4'') = None"
  "py_int ''- 1'' = None"
  "py_int ''1__0'' = None"
  "py_int ''1_'' = None"
  "py_int [] = None"
  "py_int (replicate 4300 (CHR ''1'') @ ''1'') = None"
  by code_simp+

subsection \<open>The derived file name\<close>

text \<open>The two examples of the specification come out as it says.\<close>

lemma get_pdf_filename_examples:
  "get_pdf_filename ''https://x.org/file.php?token=abc'' (with_headers Map.empty) = ''file.php.pdf''"
  "get_pdf_filename ''https://x.org/file.php?token=abc''
     (with_headers [''content-disposition'' \<mapsto> ''filename='' @ [CHR 0x22] @ ''report.pdf'' @ [CHR 0x22]])
     = ''report.pdf''"
  by code_simp+

text \<open>
  C4. The claim that the derived name is the \<open>filename=\<close> value of the
  \<open>Content-Disposition\<close> header or else the last path segment of the URL, without
  its query string, fails on the code. The URL is split at its slashes before the
  query string is cut off, so with a slash in the query string the name comes out of
  the query: for \<open>https://x.org/report.pdf?from=/home\<close> it is \<open>home.pdf\<close>, not
  \<open>report.pdf\<close>. And everything after \<open>filename=\<close> is taken, so a parameter that
  follows the file name in the header becomes part of the name.
\<close>

theorem get_pdf_filename_name_from_query:
  "get_pdf_filename ''https://x.org/report.pdf?from=/home'' (with_headers Map.empty) = ''home.pdf'' \<and>
   get_pdf_filename ''https://x.org/x''
     (with_headers [''content-disposition'' \<mapsto>
        ''attachment; filename='' @ [CHR 0x22] @ ''a.pdf'' @ [CHR 0x22] @ ''; size=3''])
     = ''a.pdf'' @ [CHR 0x22] @ ''; size=3.pdf''"
  by code_simp

subsection \<open>Downloading\<close>

lemma write_chunks_file:
  "fs w p = Some (File bytes) \<Longrightarrow>
   write_chunks p cs w = w\<lparr>fs := (fs w)(p \<mapsto> File (bytes @ concat cs))\<rparr>"
proof (induction cs arbitrary: w bytes)
  case Nil
  then show ?case by (simp add: fun_upd_idem)
next
  case (Cons c cs)
  let ?w = "w\<lparr>fs := (fs w)(p \<mapsto> File (bytes @ c))\<rparr>"
  have step: "write_chunk p c w = ?w"
    using Cons.prems by (simp add: write_chunk_def)
  have "fs ?w p = Some (File (bytes @ c))" by simp
  from Cons.IH [OF this]
  have "write_chunks p cs ?w = ?w\<lparr>fs := (fs ?w)(p \<mapsto> File ((bytes @ c) @ concat cs))\<rparr>" .
  moreover have "?w\<lparr>fs := (fs ?w)(p \<mapsto> v)\<rparr> = w\<lparr>fs := (fs w)(p \<mapsto> v)\<rparr>" for v
    by simp
  ultimately have "write_chunks p cs (write_chunk p c w) =
      w\<lparr>fs := (fs w)(p \<mapsto> File ((bytes @ c) @ concat cs))\<rparr>"
    using step by (simp only:)
  then show ?case by (simp only: write_chunks.simps concat.simps append_assoc)
qed

lemma open_then_write:
  "open_wb e p w = Inr w2 \<Longrightarrow>
   write_chunks p cs w2 = w\<lparr>fs := (fs w)(p \<mapsto> File (concat cs))\<rparr>"
proof -
  assume "open_wb e p w = Inr w2"
  then have w2: "w2 = w\<lparr>fs := (fs w)(p \<mapsto> File [])\<rparr>"
    by (auto simp: open_wb_def split: if_splits)
  then have "fs w2 p = Some (File [])" by simp
  from write_chunks_file [OF this] w2 show ?thesis by simp
qed

lemma transfer_complete:
  assumes "net e (body_request pdf_url) = Inr response"
    and "raise_for_status response = Inr ()"
    and "content_length response = Some total_size"
    and "fs w output_path \<noteq> Some Dir" and "can_open e output_path"
  shows "transfer e pdf_url output_path w =
           (case broken response of Some x \<Rightarrow> Inl x | None \<Rightarrow> Inr output_path,
            w\<lparr>fs := (fs w)(output_path \<mapsto> File (concat (chunks response))),
              sent := sent w @ [body_request pdf_url]\<rparr>)"
proof -
  let ?w1 = "w\<lparr>sent := sent w @ [body_request pdf_url]\<rparr>"
  have op: "open_wb e output_path ?w1 = Inr (?w1\<lparr>fs := (fs ?w1)(output_path \<mapsto> File [])\<rparr>)"
    using assms by (simp add: open_wb_def)
  from open_then_write [OF op] assms op show ?thesis
    by (simp add: transfer_def http_def Let_def split: option.splits)
qed

lemma transfer_sent:
  "sent (snd (transfer e pdf_url output_path w)) = sent w @ [body_request pdf_url]"
proof -
  have wc: "sent (write_chunks p cs v) = sent v" for p cs v
    by (induction cs arbitrary: v) (auto simp: write_chunk_def split: option.splits node.splits)
  show ?thesis
    by (auto simp: transfer_def http_def Let_def open_wb_def wc
        split: sum.splits option.splits if_splits)
qed


lemma already_complete_sent [simp]:
  "already_complete e p r (w\<lparr>sent := s\<rparr>) = already_complete e p r w"
  by (simp add: already_complete_def)

lemma download_pdf_skip:
  assumes "net e (head_request pdf_url) = Inr head_response"
    and "raise_for_status head_response = Inr ()"
    and "already_complete e (path_join output_dir (get_pdf_filename pdf_url head_response))
           head_response w = Inr True"
  shows "download_pdf e pdf_url output_dir w =
           (Some (path_join output_dir (get_pdf_filename pdf_url head_response)),
            w\<lparr>sent := sent w @ [head_request pdf_url]\<rparr>)"
  using assms by (simp add: download_pdf_def download_pdf_try_def http_def Let_def)

lemma download_pdf_transfer:
  assumes "net e (head_request pdf_url) = Inr head_response"
    and "raise_for_status head_response = Inr ()"
    and "already_complete e (path_join output_dir (get_pdf_filename pdf_url head_response))
           head_response w = Inr False"
  shows "download_pdf e pdf_url output_dir w =
           (case transfer e pdf_url (path_join output_dir (get_pdf_filename pdf_url head_response))
                   (w\<lparr>sent := sent w @ [head_request pdf_url]\<rparr>) of
              (Inl x, w1) \<Rightarrow> (None, w1)
            | (Inr output_path, w1) \<Rightarrow> (Some output_path, w1))"
  using assms by (simp add: download_pdf_def download_pdf_try_def http_def Let_def)

text \<open>
  C1. When a file exists at the target path and its size equals the \<open>content-length\<close>
  of the HEAD response, \<open>download_pdf\<close> returns that path, sends nothing but the HEAD
  request (no body is transferred) and leaves the file system as it was. When the sizes
  differ it sends the streaming GET request, and once that download completes the file
  at the target path holds the received body and the path is returned.
\<close>

theorem download_pdf_skip_or_redownload:
  assumes head: "net e (head_request pdf_url) = Inr head_response"
    and ok: "raise_for_status head_response = Inr ()"
    and path: "output_path = path_join output_dir (get_pdf_filename pdf_url head_response)"
    and existing: "fs w output_path = Some (File bytes)"
    and len: "header head_response ''content-length'' = Some v" "py_int v = Some expected_size"
  shows "(int (length bytes) = expected_size \<longrightarrow>
            download_pdf e pdf_url output_dir w =
              (Some output_path, w\<lparr>sent := sent w @ [head_request pdf_url]\<rparr>)) \<and>
         (int (length bytes) \<noteq> expected_size \<longrightarrow>
            sent (snd (download_pdf e pdf_url output_dir w)) =
              sent w @ [head_request pdf_url, body_request pdf_url] \<and>
            (\<forall>response total_size.
               net e (body_request pdf_url) = Inr response \<and>
               raise_for_status response = Inr () \<and>
               content_length response = Some total_size \<and>
               can_open e output_path \<and> broken response = None \<longrightarrow>
               download_pdf e pdf_url output_dir w =
                 (Some output_path,
                  w\<lparr>fs := (fs w)(output_path \<mapsto> File (concat (chunks response))),
                    sent := sent w @ [head_request pdf_url, body_request pdf_url]\<rparr>)))"
proof (intro conjI impI allI)
  assume "int (length bytes) = expected_size"
  then have "already_complete e output_path head_response w = Inr True"
    using existing len by (simp add: already_complete_def content_length_def st_size_def)
  then show "download_pdf e pdf_url output_dir w =
      (Some output_path, w\<lparr>sent := sent w @ [head_request pdf_url]\<rparr>)"
    using download_pdf_skip [OF head ok] path by simp
next
  assume "int (length bytes) \<noteq> expected_size"
  then have ac: "already_complete e output_path head_response w = Inr False"
    using existing len by (simp add: already_complete_def content_length_def st_size_def)
  have dl: "download_pdf e pdf_url output_dir w =
      (case transfer e pdf_url output_path (w\<lparr>sent := sent w @ [head_request pdf_url]\<rparr>) of
         (Inl x, w1) \<Rightarrow> (None, w1)
       | (Inr output_path, w1) \<Rightarrow> (Some output_path, w1))"
    using download_pdf_transfer [OF head ok] ac path by simp
  show "sent (snd (download_pdf e pdf_url output_dir w)) =
      sent w @ [head_request pdf_url, body_request pdf_url]"
    using transfer_sent [of e pdf_url output_path "w\<lparr>sent := sent w @ [head_request pdf_url]\<rparr>"]
    by (cases "transfer e pdf_url output_path (w\<lparr>sent := sent w @ [head_request pdf_url]\<rparr>)")
       (auto simp add: dl split: sum.splits)
  fix response total_size
  assume get: "net e (body_request pdf_url) = Inr response \<and>
     raise_for_status response = Inr () \<and>
     content_length response = Some total_size \<and>
     can_open e output_path \<and> broken response = None"
  have "fs (w\<lparr>sent := sent w @ [head_request pdf_url]\<rparr>) output_path \<noteq> Some Dir"
    using existing by simp
  with get have "transfer e pdf_url output_path (w\<lparr>sent := sent w @ [head_request pdf_url]\<rparr>) =
      (Inr output_path,
       w\<lparr>fs := (fs w)(output_path \<mapsto> File (concat (chunks response))),
         sent := sent w @ [head_request pdf_url, body_request pdf_url]\<rparr>)"
    using transfer_complete [of e pdf_url response total_size
        "w\<lparr>sent := sent w @ [head_request pdf_url]\<rparr>" output_path]
    by simp
  then show "download_pdf e pdf_url output_dir w =
      (Some output_path,
       w\<lparr>fs := (fs w)(output_path \<mapsto> File (concat (chunks response))),
         sent := sent w @ [head_request pdf_url, body_request pdf_url]\<rparr>)"
    by (simp add: dl)
qed

theorem download_pdf_skip_or_redownload_witness:
  "download_pdf
     (demo_env [(head_request ''https://x.org/a.pdf'', with_headers [''content-length'' \<mapsto> ''4''])])
     ''https://x.org/a.pdf'' (parse_path ''pdfs'')
     \<lparr>fs = [Path [] [''pdfs'', ''a.pdf''] \<mapsto> File ''%PDF''], sent = []\<rparr> =
   (Some (Path [] [''pdfs'', ''a.pdf'']),
    \<lparr>fs = [Path [] [''pdfs'', ''a.pdf''] \<mapsto> File ''%PDF''],
     sent = [head_request ''https://x.org/a.pdf'']\<rparr>) \<and>
   download_pdf
     (demo_env [(head_request ''https://x.org/a.pdf'', with_headers [''content-length'' \<mapsto> ''6'']),
                (body_request ''https://x.org/a.pdf'', pdf_body [''%PDF'', ''-1''] None)])
     ''https://x.org/a.pdf'' (parse_path ''pdfs'')
     \<lparr>fs = [Path [] [''pdfs'', ''a.pdf''] \<mapsto> File ''%PDF''], sent = []\<rparr> =
   (Some (Path [] [''pdfs'', ''a.pdf'']),
    \<lparr>fs = [Path [] [''pdfs'', ''a.pdf''] \<mapsto> File ''%PDF-1''],
     sent = [head_request ''https://x.org/a.pdf'', body_request ''https://x.org/a.pdf'']\<rparr>)"
proof -
  let ?u = "''https://x.org/a.pdf''"
  let ?p = "Path [] [''pdfs'', ''a.pdf'']"
  let ?w = "\<lparr>fs = [?p \<mapsto> File ''%PDF''], sent = []\<rparr>"
  let ?r4 = "with_headers [''content-length'' \<mapsto> ''4'']"
  let ?r6 = "with_headers [''content-length'' \<mapsto> ''6'']"
  let ?body = "pdf_body [''%PDF'', ''-1''] None"
  let ?e4 = "demo_env [(head_request ?u, ?r4)]"
  let ?e6 = "demo_env [(head_request ?u, ?r6), (body_request ?u, ?body)]"
  have head4: "net ?e4 (head_request ?u) = Inr ?r4"
    by (simp add: demo_env_def answer_def)
  have head6: "net ?e6 (head_request ?u) = Inr ?r6"
    by (simp add: demo_env_def answer_def)
  have ok4: "raise_for_status ?r4 = Inr ()" and ok6: "raise_for_status ?r6 = Inr ()"
    by (simp_all add: raise_for_status_def with_headers_def)
  have p4: "?p = path_join (parse_path ''pdfs'') (get_pdf_filename ?u ?r4)"
    and p6: "?p = path_join (parse_path ''pdfs'') (get_pdf_filename ?u ?r6)"
    by code_simp+
  have there: "fs ?w ?p = Some (File ''%PDF'')" by simp
  have len4: "header ?r4 ''content-length'' = Some ''4''" "py_int ''4'' = Some 4"
    and len6: "header ?r6 ''content-length'' = Some ''6''" "py_int ''6'' = Some 6"
    by code_simp+
  have get: "net ?e6 (body_request ?u) = Inr ?body"
    by (simp add: demo_env_def answer_def head_request_def body_request_def)
  have body_ok: "raise_for_status ?body = Inr ()" "broken ?body = None"
    by (simp_all add: raise_for_status_def pdf_body_def)
  have body_all: "concat (chunks ?body) = ''%PDF-1''"
    by (simp add: pdf_body_def)
  have total: "content_length ?body = Some 0" by code_simp
  have writable: "can_open ?e6 ?p" by (simp add: demo_env_def)
  from download_pdf_skip_or_redownload [OF head4 ok4 p4 there len4]
  have skip: "download_pdf ?e4 ?u (parse_path ''pdfs'') ?w =
      (Some ?p, ?w\<lparr>sent := sent ?w @ [head_request ?u]\<rparr>)"
    by simp
  from download_pdf_skip_or_redownload [OF head6 ok6 p6 there len6]
  have "\<forall>response total_size.
      net ?e6 (body_request ?u) = Inr response \<and> raise_for_status response = Inr () \<and>
      content_length response = Some total_size \<and> can_open ?e6 ?p \<and>
      broken response = None \<longrightarrow>
      download_pdf ?e6 ?u (parse_path ''pdfs'') ?w =
        (Some ?p, ?w\<lparr>fs := (fs ?w)(?p \<mapsto> File (concat (chunks response))),
                   sent := sent ?w @ [head_request ?u, body_request ?u]\<rparr>)"
    by simp
  from this [rule_format, of ?body 0] get body_ok total writable
  have again: "download_pdf ?e6 ?u (parse_path ''pdfs'') ?w =
      (Some ?p, ?w\<lparr>fs := (fs ?w)(?p \<mapsto> File (concat (chunks ?body))),
                 sent := sent ?w @ [head_request ?u, body_request ?u]\<rparr>)"
    by blast
  from skip again body_all show ?thesis by simp
qed

text \<open>
  Without a \<open>content-length\<close> in the HEAD response the expected size is the default 0:
  an existing file is taken as complete exactly when it is empty.
\<close>

lemma download_pdf_no_content_length:
  assumes "net e (head_request pdf_url) = Inr head_response"
    and "raise_for_status head_response = Inr ()"
    and "header head_response ''content-length'' = None"
    and "fs w (path_join output_dir (get_pdf_filename pdf_url head_response)) = Some (File bytes)"
  shows "download_pdf e pdf_url output_dir w =
           (if bytes = []
            then (Some (path_join output_dir (get_pdf_filename pdf_url head_response)),
                  w\<lparr>sent := sent w @ [head_request pdf_url]\<rparr>)
            else (case transfer e pdf_url
                         (path_join output_dir (get_pdf_filename pdf_url head_response))
                         (w\<lparr>sent := sent w @ [head_request pdf_url]\<rparr>) of
                    (Inl x, w1) \<Rightarrow> (None, w1)
                  | (Inr output_path, w1) \<Rightarrow> (Some output_path, w1)))"
proof (cases "bytes = []")
  case True
  with assms have "already_complete e (path_join output_dir (get_pdf_filename pdf_url head_response))
      head_response w = Inr True"
    by (simp add: already_complete_def content_length_def st_size_def)
  from download_pdf_skip [OF assms(1,2) this] True show ?thesis by simp
next
  case False
  with assms have "already_complete e (path_join output_dir (get_pdf_filename pdf_url head_response))
      head_response w = Inr False"
    by (simp add: already_complete_def content_length_def st_size_def)
  from download_pdf_transfer [OF assms(1,2) this] False show ?thesis by simp
qed

text \<open>
  C6. The claim that a file is never taken as complete when the server reported no
  \<open>content-length\<close> fails on the code: with an empty file at the target path and a
  HEAD response without that header, \<open>download_pdf\<close> returns the existing path, sends
  the HEAD request only and leaves the empty file as it is.
\<close>

theorem download_pdf_keeps_empty_file_without_content_length:
  "download_pdf
     (demo_env [(head_request ''https://x.org/a.pdf'', with_headers Map.empty),
                (body_request ''https://x.org/a.pdf'', pdf_body [''%PDF'', ''-1''] None)])
     ''https://x.org/a.pdf'' (parse_path ''pdfs'')
     \<lparr>fs = [Path [] [''pdfs'', ''a.pdf''] \<mapsto> File []], sent = []\<rparr> =
   (Some (Path [] [''pdfs'', ''a.pdf'']),
    \<lparr>fs = [Path [] [''pdfs'', ''a.pdf''] \<mapsto> File []],
     sent = [head_request ''https://x.org/a.pdf'']\<rparr>)"
proof -
  let ?u = "''https://x.org/a.pdf''"
  let ?p = "Path [] [''pdfs'', ''a.pdf'']"
  let ?w = "\<lparr>fs = [?p \<mapsto> File []], sent = []\<rparr>"
  let ?r = "with_headers Map.empty"
  let ?e = "demo_env [(head_request ?u, ?r), (body_request ?u, pdf_body [''%PDF'', ''-1''] None)]"
  have head: "net ?e (head_request ?u) = Inr ?r"
    by (simp add: demo_env_def answer_def)
  have ok: "raise_for_status ?r = Inr ()"
    by (simp add: raise_for_status_def with_headers_def)
  have nolen: "header ?r ''content-length'' = None" by code_simp
  have p: "path_join (parse_path ''pdfs'') (get_pdf_filename ?u ?r) = ?p" by code_simp
  have there: "fs ?w (path_join (parse_path ''pdfs'') (get_pdf_filename ?u ?r)) = Some (File [])"
    by (simp add: p)
  from download_pdf_no_content_length [OF head ok nolen there] show ?thesis
    by (simp add: p)
qed

text \<open>
  C9. When the streamed body breaks off with an exception after some chunks,
  \<open>download_pdf\<close> returns nothing and the file at the target path holds the chunks
  written up to then: nothing removes it or restores what was there before, so the
  file system differs from its state before the call unless the file already had
  exactly that content.
\<close>

theorem download_pdf_partial_file_stays:
  assumes "net e (head_request pdf_url) = Inr head_response"
    and "raise_for_status head_response = Inr ()"
    and "output_path = path_join output_dir (get_pdf_filename pdf_url head_response)"
    and "already_complete e output_path head_response w = Inr False"
    and "net e (body_request pdf_url) = Inr response"
    and "raise_for_status response = Inr ()"
    and "content_length response = Some total_size"
    and "fs w output_path \<noteq> Some Dir" and "can_open e output_path"
    and "broken response = Some x"
  shows "download_pdf e pdf_url output_dir w =
           (None,
            w\<lparr>fs := (fs w)(output_path \<mapsto> File (concat (chunks response))),
              sent := sent w @ [head_request pdf_url, body_request pdf_url]\<rparr>) \<and>
         (fs w output_path \<noteq> Some (File (concat (chunks response))) \<longrightarrow>
            fs (snd (download_pdf e pdf_url output_dir w)) \<noteq> fs w)"
proof -
  let ?w1 = "w\<lparr>sent := sent w @ [head_request pdf_url]\<rparr>"
  have "fs ?w1 output_path \<noteq> Some Dir" using assms(8) by simp
  from transfer_complete [OF assms(5,6,7) this assms(9)] assms(10)
  have "transfer e pdf_url output_path ?w1 =
      (Inl x, w\<lparr>fs := (fs w)(output_path \<mapsto> File (concat (chunks response))),
                sent := sent w @ [head_request pdf_url, body_request pdf_url]\<rparr>)"
    by simp
  with download_pdf_transfer [OF assms(1,2)] assms(3,4)
  have res: "download_pdf e pdf_url output_dir w =
      (None, w\<lparr>fs := (fs w)(output_path \<mapsto> File (concat (chunks response))),
               sent := sent w @ [head_request pdf_url, body_request pdf_url]\<rparr>)"
    by simp
  have "fs (snd (download_pdf e pdf_url output_dir w)) output_path =
      Some (File (concat (chunks response)))"
    by (simp add: res)
  then have "fs w output_path \<noteq> Some (File (concat (chunks response))) \<Longrightarrow>
      fs (snd (download_pdf e pdf_url output_dir w)) \<noteq> fs w"
    by metis
  with res show ?thesis by blast
qed

theorem download_pdf_partial_file_stays_witness:
  "download_pdf
     (demo_env [(head_request ''https://x.org/a.pdf'', with_headers [''content-length'' \<mapsto> ''6'']),
                (body_request ''https://x.org/a.pdf'', pdf_body [''%P'', ''DF''] (Some RequestException))])
     ''https://x.org/a.pdf'' (parse_path ''pdfs'') empty_world =
   (None,
    \<lparr>fs = [Path [] [''pdfs'', ''a.pdf''] \<mapsto> File ''%PDF''],
     sent = [head_request ''https://x.org/a.pdf'', body_request ''https://x.org/a.pdf'']\<rparr>)"
proof -
  let ?u = "''https://x.org/a.pdf''"
  let ?p = "Path [] [''pdfs'', ''a.pdf'']"
  let ?r = "with_headers [''content-length'' \<mapsto> ''6'']"
  let ?body = "pdf_body [''%P'', ''DF''] (Some RequestException)"
  let ?e = "demo_env [(head_request ?u, ?r), (body_request ?u, ?body)]"
  have head: "net ?e (head_request ?u) = Inr ?r"
    by (simp add: demo_env_def answer_def)
  have ok: "raise_for_status ?r = Inr ()"
    by (simp add: raise_for_status_def with_headers_def)
  have p: "?p = path_join (parse_path ''pdfs'') (get_pdf_filename ?u ?r)" by code_simp
  have fresh: "already_complete ?e ?p ?r empty_world = Inr False" by code_simp
  have get: "net ?e (body_request ?u) = Inr ?body"
    by (simp add: demo_env_def answer_def head_request_def body_request_def)
  have body_ok: "raise_for_status ?body = Inr ()" "broken ?body = Some RequestException"
    by (simp_all add: raise_for_status_def pdf_body_def)
  have total: "content_length ?body = Some 0" by code_simp
  have free: "fs empty_world ?p \<noteq> Some Dir" and writable: "can_open ?e ?p"
    by (simp_all add: empty_world_def demo_env_def)
  from download_pdf_partial_file_stays
    [OF head ok p fresh get body_ok(1) total free writable body_ok(2)]
  show ?thesis by (simp add: empty_world_def pdf_body_def)
qed

subsection \<open>Resolving the PDF link\<close>

lemma resolved_Nil [simp]: "resolved e url [] = []"
  by (simp add: resolved_def)










text \<open>
  What the amended statement leaves out: \<open>urljoin\<close> is called outside the handler of
  the probe, so a candidate whose \<open>href\<close> it refuses ends the whole resolution with
  no result, before any later candidate is probed.
\<close>

lemma get_pdf_url_unjoined_href:
  "fst (get_pdf_url bracket_env ''https://x.org/article'' empty_world) = None \<and>
   sent (snd (get_pdf_url bracket_env ''https://x.org/article'' empty_world)) =
     [page_request ''https://x.org/article'']"
  by code_simp

subsection \<open>Processing a batch of links\<close>

lemma successes_simps [simp]:
  "successes [] = []"
  "successes (None # rs) = successes rs"
  "successes (Some p # rs) = p # successes rs"
  by (simp_all add: successes_def)

lemma process_loop_outcomes:
  "process_loop e output_dir links acc w =
     (acc @ successes (fst (outcomes e output_dir links w)), snd (outcomes e output_dir links w))"
proof (induction links arbitrary: acc w)
  case Nil
  then show ?case by simp
next
  case (Cons link links)
  obtain r w1 where lo: "link_outcome e output_dir link w = (r, w1)"
    by (cases "link_outcome e output_dir link w")
  obtain rs w2 where os: "outcomes e output_dir links w1 = (rs, w2)"
    by (cases "outcomes e output_dir links w1")
  have step: "process_loop e output_dir (link # links) acc w =
      process_loop e output_dir links (case r of None \<Rightarrow> acc | Some p \<Rightarrow> acc @ [p]) w1"
    using lo by (auto simp add: link_outcome_def split: prod.splits option.splits if_splits)
  show ?case
    unfolding step using lo os Cons.IH [of "case r of None \<Rightarrow> acc | Some p \<Rightarrow> acc @ [p]" w1]
    by (cases r) simp_all
qed

lemma length_outcomes: "length (fst (outcomes e output_dir links w)) = length links"
proof (induction links arbitrary: w)
  case Nil
  then show ?case by simp
next
  case (Cons link links)
  obtain r w1 where lo: "link_outcome e output_dir link w = (r, w1)"
    by (cases "link_outcome e output_dir link w")
  obtain rs w2 where os: "outcomes e output_dir links w1 = (rs, w2)"
    by (cases "outcomes e output_dir links w1")
  from Cons.IH [of w1] lo os show ?case by simp
qed

text \<open>
  C3. Once the output directory is there, \<open>process_article_links\<close> always returns a
  list (no link makes it raise): the links are processed in input order, each has one
  outcome, and the result is exactly the paths of the links whose resolution and
  download both succeeded, in input order, the failed links left out.
\<close>

theorem process_article_links_collects:
  assumes "mkdir_exist_ok e (parse_path ''pdfs'') w = Inr w0"
  shows "process_article_links e article_links w =
           (Inr (successes (fst (outcomes e (parse_path ''pdfs'') article_links w0))),
            snd (outcomes e (parse_path ''pdfs'') article_links w0)) \<and>
         length (fst (outcomes e (parse_path ''pdfs'') article_links w0)) = length article_links"
  using assms
  by (simp add: process_article_links_def process_loop_outcomes length_outcomes Let_def)

theorem process_article_links_collects_witness:
  "fst (process_article_links batch_env
          [''https://x.org/one'', ''https://x.org/two'', ''https://x.org/three''] empty_world) =
     Inr [Path [] [''pdfs'', ''one.pdf''], Path [] [''pdfs'', ''three.pdf'']]"
proof -
  have mk: "mkdir_exist_ok batch_env (parse_path ''pdfs'') empty_world =
      Inr (empty_world\<lparr>fs := (fs empty_world)(parse_path ''pdfs'' \<mapsto> Dir)\<rparr>)"
    by (simp add: mkdir_exist_ok_def empty_world_def batch_env_def demo_env_def)
  have "successes (fst (outcomes batch_env (parse_path ''pdfs'')
      [''https://x.org/one'', ''https://x.org/two'', ''https://x.org/three'']
      (empty_world\<lparr>fs := (fs empty_world)(parse_path ''pdfs'' \<mapsto> Dir)\<rparr>))) =
      [Path [] [''pdfs'', ''one.pdf''], Path [] [''pdfs'', ''three.pdf'']]"
    by code_simp
  with process_article_links_collects [OF mk,
      of "[''https://x.org/one'', ''https://x.org/two'', ''https://x.org/three'']"]
  show ?thesis by simp
qed

subsection \<open>Failures are absorbed\<close>









subsection \<open>Discovering links\<close>

lemma page_candidates_Nil [simp]: "page_candidates e base_url terms url [] = {}"
  by (simp add: page_candidates_def)

lemma page_candidates_Cons:
  "page_candidates e base_url terms url (link # links) =
     (case candidate_url e base_url terms url link of None \<Rightarrow> {} | Some u \<Rightarrow> {u}) \<union>
     page_candidates e base_url terms url links"
  by (simp add: page_candidates_def split: option.splits)

lemma in_page_candidates:
  "u \<in> page_candidates e base_url terms url links \<longleftrightarrow>
     (\<exists>link\<in>set links. \<exists>h. href link = Some h \<and> h \<noteq> [] \<and> relevant terms h link \<and>
        urljoin e url h = Inr u \<and> contains base_url u)"
proof (induction links)
  case Nil
  then show ?case by simp
next
  case (Cons link links)
  have "candidate_url e base_url terms url link = Some u \<longleftrightarrow>
      (\<exists>h. href link = Some h \<and> h \<noteq> [] \<and> relevant terms h link \<and>
         urljoin e url h = Inr u \<and> contains base_url u)"
    by (auto simp add: candidate_url_def split: option.splits sum.splits if_splits)
  then show ?case
    using Cons.IH by (auto simp add: page_candidates_Cons split: option.splits)
qed

lemma scan_page_candidates:
  "list_all (\<lambda>link. \<not> join_raises e terms url link) links \<Longrightarrow>
   scan_page e base_url terms url links all_links =
     all_links \<union> page_candidates e base_url terms url links"
proof (induction links arbitrary: all_links)
  case Nil
  then show ?case by simp
next
  case (Cons link links)
  then have rest: "list_all (\<lambda>link. \<not> join_raises e terms url link) links"
    and this_one: "\<not> join_raises e terms url link"
    by simp_all
  show ?case
  proof (cases "href link")
    case None
    then show ?thesis
      using Cons.IH [OF rest] by (simp add: page_candidates_Cons candidate_url_def)
  next
    case (Some h)
    show ?thesis
    proof (cases "h \<noteq> [] \<and> relevant terms h link")
      case False
      then show ?thesis
        using Some Cons.IH [OF rest]
        by (auto simp add: page_candidates_Cons candidate_url_def)
    next
      case True
      with Some this_one have "\<not> isl (urljoin e url h)" by (simp add: join_raises_def)
      then obtain full_url where j: "urljoin e url h = Inr full_url"
        by (cases "urljoin e url h") auto
      show ?thesis
        using Some True j
          Cons.IH [OF rest,
            of "if contains base_url full_url then insert full_url all_links else all_links"]
        by (auto simp add: page_candidates_Cons candidate_url_def)
    qed
  qed
qed

lemma discover_loop_candidates:
  "list_all (page_joins e terms) urls \<Longrightarrow>
   fst (discover_loop e base_url terms urls all_links w) =
     all_links \<union> (\<Union>url\<in>set urls. seed_candidates e base_url terms url)"
proof (induction urls arbitrary: all_links w)
  case Nil
  then show ?case by simp
next
  case (Cons url urls)
  then have rest: "list_all (page_joins e terms) urls" and this_one: "page_joins e terms url"
    by simp_all
  let ?w1 = "w\<lparr>sent := sent w @ [seed_request url]\<rparr>"
  show ?case
  proof (cases "net e (seed_request url)")
    case (Inl x)
    then show ?thesis
      using Cons.IH [OF rest, of all_links ?w1] by (simp add: http_def seed_candidates_def)
  next
    case (Inr response)
    show ?thesis
    proof (cases "raise_for_status response")
      case (Inl x)
      then show ?thesis
        using Inr Cons.IH [OF rest, of all_links ?w1] by (simp add: http_def seed_candidates_def)
    next
      case ok: (Inr u)
      with Inr this_one
      have "list_all (\<lambda>link. \<not> join_raises e terms url link) (anchors response)"
        by (simp add: page_joins_def)
      from scan_page_candidates [OF this, of base_url all_links]
      show ?thesis
        using Inr ok
          Cons.IH [OF rest, of "scan_page e base_url terms url (anchors response) all_links" ?w1]
        by (auto simp add: http_def seed_candidates_def)
    qed
  qed
qed

text \<open>
  C8 (as amended). When on every seed page that is fetched without error the
  \<open>href\<close> of every relevant link can be joined to the seed's URL, the discovery
  result is the seeds together with the candidates of the seed pages: a URL is a
  candidate of a seed if and only if the seed's page is fetched without error and has
  a link with a non-empty \<open>href\<close> that contains a term in the \<open>href\<close> as written or
  in its text (case-insensitively), whose joined URL it is and contains the domain.
  The result always contains every seed, and as a finite set it has no duplicates.
\<close>

theorem discover_union:
  assumes "list_all (page_joins e terms) article_links"
  shows "fst (discover e base_url terms article_links w) =
           set article_links \<union> (\<Union>url\<in>set article_links. seed_candidates e base_url terms url) \<and>
         (\<forall>u url. u \<in> seed_candidates e base_url terms url \<longleftrightarrow>
            (\<exists>response. net e (seed_request url) = Inr response \<and>
               raise_for_status response = Inr () \<and>
               (\<exists>link\<in>set (anchors response). \<exists>h. href link = Some h \<and> h \<noteq> [] \<and>
                  relevant terms h link \<and> urljoin e url h = Inr u \<and> contains base_url u))) \<and>
         set article_links \<subseteq> fst (discover e base_url terms article_links w) \<and>
         finite (fst (discover e base_url terms article_links w))"
proof -
  have eq: "fst (discover e base_url terms article_links w) =
      set article_links \<union> (\<Union>url\<in>set article_links. seed_candidates e base_url terms url)"
    using discover_loop_candidates [OF assms, of base_url "{}" w]
    by (auto simp add: discover_def split: prod.splits)
  have fin: "finite (seed_candidates e base_url terms url)" for url
    by (simp add: seed_candidates_def page_candidates_def split: sum.splits)
  have iff: "u \<in> seed_candidates e base_url terms url \<longleftrightarrow>
      (\<exists>response. net e (seed_request url) = Inr response \<and>
         raise_for_status response = Inr () \<and>
         (\<exists>link\<in>set (anchors response). \<exists>h. href link = Some h \<and> h \<noteq> [] \<and>
            relevant terms h link \<and> urljoin e url h = Inr u \<and> contains base_url u))" for u url
    by (auto simp add: seed_candidates_def in_page_candidates split: sum.splits)
  from eq fin iff show ?thesis by auto
qed

theorem discover_union_witness:
  "fst (discover polls_env ''https://www.mhrc.ca'' main_terms
          [''https://www.mhrc.ca/national-polling''] empty_world) =
     {''https://www.mhrc.ca/national-polling'', ''https://www.mhrc.ca/poll-15'',
      ''https://www.mhrc.ca/about''}"
proof -
  have joins: "list_all (page_joins polls_env main_terms) [''https://www.mhrc.ca/national-polling'']"
    by code_simp
  have "seed_candidates polls_env ''https://www.mhrc.ca'' main_terms
      ''https://www.mhrc.ca/national-polling'' =
      {''https://www.mhrc.ca/poll-15'', ''https://www.mhrc.ca/about''}"
    by code_simp
  with discover_union [OF joins, of "''https://www.mhrc.ca''" empty_world]
  show ?thesis by auto
qed

text \<open>
  C8 as stated fails: the terms are looked for in the \<open>href\<close> as written, not in the
  resolved URL. A link \<open>?page=2\<close> on the seed page \<open>research-briefs\<close> (whose \<open>href\<close>
  can be joined) resolves to a URL of the domain that contains \<open>research\<close>, so the
  claim makes it a candidate, but it is not in the result.
\<close>

theorem discover_resolved_url_counterexample:
  "urljoin briefs_env ''https://www.mhrc.ca/research-briefs'' ''?page=2'' =
     Inr ''https://www.mhrc.ca/research-briefs?page=2'' \<and>
   page_joins briefs_env main_terms ''https://www.mhrc.ca/research-briefs'' \<and>
   claimed_candidate ''https://www.mhrc.ca'' main_terms
     ''https://www.mhrc.ca/research-briefs?page=2'' next_page_link \<and>
   ''https://www.mhrc.ca/research-briefs?page=2'' \<notin>
     fst (discover briefs_env ''https://www.mhrc.ca'' main_terms
            [''https://www.mhrc.ca/research-briefs''] empty_world)"
  by code_simp

text \<open>
  What the amended statement leaves out: a relevant link whose \<open>href\<close> \<open>urljoin\<close>
  refuses ends the scan of its page, so the links after it are not collected.
\<close>

lemma discover_unjoined_href:
  "fst (discover bracket_env ''https://www.mhrc.ca'' main_terms
          [''https://www.mhrc.ca/national-polling''] empty_world) =
     {''https://www.mhrc.ca/national-polling'', ''https://www.mhrc.ca/poll-1''}"
  by code_simp

subsection \<open>Which client sends a request\<close>

lemma session_requests:
  "via (page_request u) = Session" "via (head_request u) = Session"
  "via (body_request u) = Session" "via (probe u) = Bare" "via (seed_request u) = Bare"
  by (simp_all add: page_request_def head_request_def body_request_def probe_def seed_request_def)

text \<open>
  C7. The claim that every request goes through the shared session fails on the code:
  resolving a page sends the page fetch through the session but the probe of a
  candidate through the bare module function, and discovery fetches a seed page
  through the bare module function, so neither carries the retry policy (5 retries on
  429, 500, 502, 503, 504) of the session.
\<close>

theorem probes_and_discovery_bypass_session:
  "sent (snd (get_pdf_url priority_env ''https://x.org/article'' empty_world)) =
     [page_request ''https://x.org/article'', probe ''https://x.org/files/summary.pdf''] \<and>
   map via (sent (snd (get_pdf_url priority_env ''https://x.org/article'' empty_world))) =
     [Session, Bare] \<and>
   map via (sent (snd (discover polls_env ''https://www.mhrc.ca'' main_terms
                         [''https://www.mhrc.ca/national-polling''] empty_world))) = [Bare] \<and>
   total retry_strategy = 5 \<and> status_forcelist retry_strategy = [429, 500, 502, 503, 504]"
  by code_simp

subsection \<open>Where the files go\<close>

text \<open>
  A path that \<open>download_pdf\<close> returns is the output directory joined with the
  derived file name; its parent is the directory \<open>pdfs\<close> when the name has no slash.
\<close>

lemma download_pdf_path:
  assumes "download_pdf e pdf_url output_dir w = (Some p, w1)"
  shows "\<exists>r. net e (head_request pdf_url) = Inr r \<and>
             p = path_join output_dir (get_pdf_filename pdf_url r)"
  using assms
  by (auto simp add: download_pdf_def download_pdf_try_def transfer_def http_def Let_def
      split: sum.splits prod.splits bool.splits option.splits)

lemma split_no_sep: "c \<notin> set s \<Longrightarrow> split_from [c] cur s = [cur @ s]"
  by (induction s arbitrary: cur) auto

lemma parent_join_plain:
  assumes "CHR ''/'' \<notin> set name" and "name \<noteq> []" and "name \<noteq> ''.''"
  shows "parent (path_join (parse_path ''pdfs'') name) = parse_path ''pdfs''"
proof -
  have "py_split ''/'' name = [name]"
    using assms(1) split_no_sep [of "CHR ''/''" name "[]"] by (simp add: py_split_def)
  moreover have "\<not> prefix ''/'' name" "\<not> prefix ''//'' name"
    using assms(1) by (auto simp add: prefix_def)
  ultimately have "parse_path name = Path [] [name]"
    using assms(2,3) by (simp add: parse_path_def)
  moreover have "parse_path ''pdfs'' = Path [] [''pdfs'']"
    by (simp add: parse_path_def py_split_def)
  ultimately show ?thesis by (simp add: path_join_def parent_def)
qed

text \<open>
  C10. The claim that every returned path has the directory \<open>pdfs\<close> as its parent
  fails on the code: a file name taken from a \<open>Content-Disposition\<close> header may hold
  slashes, and joining the output directory with an absolute name gives that absolute
  path. Here the file is written to, and returned as, \<open>/tmp/report.pdf\<close>.
\<close>

theorem content_disposition_leaves_output_dir:
  "fst (process_article_links traversal_env [''https://x.org/article''] empty_world) =
     Inr [Path ''/'' [''tmp'', ''report.pdf'']] \<and>
   parent (Path ''/'' [''tmp'', ''report.pdf'']) \<noteq> parse_path ''pdfs''"
  by code_simp

end
